theory Spec2Isabelle
  imports Main "HOL-Library.AList"
begin

section \<open>JavaScript values\<close>

text \<open>
  The server of \<^verbatim>\<open>src/index.ts\<close> handles values of TypeScript type \<^verbatim>\<open>any\<close>: the
  arguments of a tool call and the bodies the remote sends back. They are modelled as
  the values \<^verbatim>\<open>JSON.parse\<close> produces, plus \<^verbatim>\<open>undefined\<close> (an absent argument, an
  absent property).

  Numbers are IEEE doubles. Their arithmetic and their printing are the engine's, not
  the program's, so the type \<open>'n\<close> of numbers is a parameter and the operations on it
  are fields of the record \<open>engine\<close> below: nothing is assumed of them, and every
  theorem holds of the doubles. Strings are byte strings. An object is the list of its
  own properties in the order the engine enumerates them, each key once.
\<close>

datatype 'n jsval =
    JUndefined
  | JNull
  | JBool bool
  | JNum 'n
  | JStr string
  | JArr "'n jsval list"
  | JObj "(string \<times> 'n jsval) list"

text \<open>
  \<open>AxiosError r m\<close> is the error axios rejects with: \<open>r\<close> is \<^verbatim>\<open>error.response.data\<close>
  when the remote answered (\<^verbatim>\<open>error.response\<close> is then an object), \<open>None\<close> when there
  was no response; \<open>m\<close> is \<^verbatim>\<open>error.message\<close>.
\<close>

datatype 'n js_error =
    Error string
  | TypeError string
  | AxiosError "'n jsval option" string

text \<open>
  The engine: the Number value of an integer literal of the source (\<^verbatim>\<open>1\<close>, \<^verbatim>\<open>10\<close>, and
  the \<^verbatim>\<open>0\<close> and \<^verbatim>\<open>1\<close> that \<^verbatim>\<open>null\<close> and the booleans convert to), \<^verbatim>\<open>NaN\<close>, the sum of
  two numbers, which numbers are falsy (the zeros and \<^verbatim>\<open>NaN\<close>), which are finite,
  Number::toString, StringToNumber, and the messages of the two TypeErrors the program
  can meet: reading a property of \<^verbatim>\<open>undefined\<close> or \<^verbatim>\<open>null\<close>, and converting to a
  primitive an object that has no usable \<^verbatim>\<open>toString\<close> or \<^verbatim>\<open>valueOf\<close>.
\<close>

record 'n engine =
  num_of_int :: "int \<Rightarrow> 'n"
  num_nan :: 'n
  num_add :: "'n \<Rightarrow> 'n \<Rightarrow> 'n"
  num_is_falsy :: "'n \<Rightarrow> bool"
  num_is_finite :: "'n \<Rightarrow> bool"
  num_to_string :: "'n \<Rightarrow> string"
  string_to_number :: "string \<Rightarrow> 'n"
  read_error_message :: "'n jsval \<Rightarrow> string \<Rightarrow> string"
  convert_error_message :: string

subsection \<open>String(), truthiness, Number(), the operator +\<close>

text \<open>
  \<^verbatim>\<open>String(v)\<close> and a template literal \<^verbatim>\<open>`${v}`\<close> both apply ToString. An array is
  joined with commas, \<^verbatim>\<open>undefined\<close> and \<^verbatim>\<open>null\<close> elements giving the empty string.
  An object goes through OrdinaryToPrimitive, which looks up \<^verbatim>\<open>toString\<close> and then
  \<^verbatim>\<open>valueOf\<close>. A parsed object inherits both from \<^verbatim>\<open>Object.prototype\<close>, and the
  inherited \<^verbatim>\<open>toString\<close> gives \<^verbatim>\<open>[object Object]\<close>; but an own property named
  \<^verbatim>\<open>toString\<close> hides it, is not callable (it is data), and then \<^verbatim>\<open>valueOf\<close>, own or
  inherited, yields no primitive either: a TypeError is thrown.
\<close>

fun js_String :: "'n engine \<Rightarrow> 'n jsval \<Rightarrow> 'n js_error + string"
  and array_join :: "'n engine \<Rightarrow> 'n jsval list \<Rightarrow> 'n js_error + string"
where
  "js_String eng JUndefined = Inr ''undefined''"
| "js_String eng JNull = Inr ''null''"
| "js_String eng (JBool b) = Inr (if b then ''true'' else ''false'')"
| "js_String eng (JNum n) = Inr (num_to_string eng n)"
| "js_String eng (JStr s) = Inr s"
| "js_String eng (JArr xs) = array_join eng xs"
| "js_String eng (JObj kvs) =
     (if map_of kvs ''toString'' = None then Inr ''[object Object]''
      else Inl (TypeError (convert_error_message eng)))"
| "array_join eng [] = Inr []"
| "array_join eng (x # xs) =
     (case (if x = JUndefined \<or> x = JNull then Inr [] else js_String eng x) of
        Inl e \<Rightarrow> Inl e
      | Inr t \<Rightarrow>
          if xs = [] then Inr t
          else (case array_join eng xs of Inl e \<Rightarrow> Inl e | Inr r \<Rightarrow> Inr (t @ '','' @ r)))"

fun truthy :: "'n engine \<Rightarrow> 'n jsval \<Rightarrow> bool" where
  "truthy eng JUndefined = False"
| "truthy eng JNull = False"
| "truthy eng (JBool b) = b"
| "truthy eng (JNum n) = (\<not> num_is_falsy eng n)"
| "truthy eng (JStr s) = (s \<noteq> [])"
| "truthy eng (JArr xs) = True"
| "truthy eng (JObj kvs) = True"

text \<open>\<^verbatim>\<open>a ?? b\<close>: \<open>b\<close> when \<open>a\<close> is \<^verbatim>\<open>undefined\<close> or \<^verbatim>\<open>null\<close>.\<close>

fun nullish :: "'n jsval \<Rightarrow> 'n jsval \<Rightarrow> 'n jsval" where
  "nullish JUndefined b = b"
| "nullish JNull b = b"
| "nullish a b = a"

text \<open>
  ToPrimitive with the hint number or default tries \<^verbatim>\<open>valueOf\<close> first; on an array or
  a parsed object the inherited \<^verbatim>\<open>valueOf\<close> returns the object itself and an own one
  is not callable, so \<^verbatim>\<open>toString\<close> decides, as above.
\<close>

fun to_primitive :: "'n engine \<Rightarrow> 'n jsval \<Rightarrow> 'n js_error + 'n jsval" where
  "to_primitive eng (JArr xs) =
     (case js_String eng (JArr xs) of Inl e \<Rightarrow> Inl e | Inr t \<Rightarrow> Inr (JStr t))"
| "to_primitive eng (JObj kvs) =
     (case js_String eng (JObj kvs) of Inl e \<Rightarrow> Inl e | Inr t \<Rightarrow> Inr (JStr t))"
| "to_primitive eng v = Inr v"

text \<open>ToNumber on a primitive.\<close>

fun prim_to_number :: "'n engine \<Rightarrow> 'n jsval \<Rightarrow> 'n" where
  "prim_to_number eng JUndefined = num_nan eng"
| "prim_to_number eng JNull = num_of_int eng 0"
| "prim_to_number eng (JBool b) = num_of_int eng (if b then 1 else 0)"
| "prim_to_number eng (JNum n) = n"
| "prim_to_number eng (JStr s) = string_to_number eng s"
| "prim_to_number eng v = num_nan eng"

definition js_Number :: "'n engine \<Rightarrow> 'n jsval \<Rightarrow> 'n js_error + 'n" where
  "js_Number eng v =
     (case to_primitive eng v of Inl e \<Rightarrow> Inl e | Inr p \<Rightarrow> Inr (prim_to_number eng p))"

fun is_string :: "'n jsval \<Rightarrow> bool" where
  "is_string (JStr s) = True"
| "is_string v = False"

text \<open>
  \<^verbatim>\<open>a + b\<close>: both operands are made primitive, the left one first; when either is then
  a string the result is the concatenation of their strings, otherwise the sum of their
  numbers.
\<close>

definition js_add :: "'n engine \<Rightarrow> 'n jsval \<Rightarrow> 'n jsval \<Rightarrow> 'n js_error + 'n jsval" where
  "js_add eng a b =
     (case to_primitive eng a of Inl e \<Rightarrow> Inl e | Inr pa \<Rightarrow>
      case to_primitive eng b of Inl e \<Rightarrow> Inl e | Inr pb \<Rightarrow>
        if is_string pa \<or> is_string pb
        then (case js_String eng pa of Inl e \<Rightarrow> Inl e | Inr sa \<Rightarrow>
              case js_String eng pb of Inl e \<Rightarrow> Inl e | Inr sb \<Rightarrow> Inr (JStr (sa @ sb)))
        else Inr (JNum (num_add eng (prim_to_number eng pa) (prim_to_number eng pb))))"

text \<open>
  Reading a property. The program reads only \<^verbatim>\<open>error\<close>, \<^verbatim>\<open>type\<close>, \<^verbatim>\<open>title\<close>,
  \<^verbatim>\<open>space\<close>, \<^verbatim>\<open>version\<close> and \<^verbatim>\<open>number\<close>, none of which a prototype defines, so on
  a string, a number, a boolean or an array the result is \<^verbatim>\<open>undefined\<close>. On
  \<^verbatim>\<open>undefined\<close> and \<^verbatim>\<open>null\<close> the read throws a TypeError.
\<close>

fun get_prop :: "'n engine \<Rightarrow> 'n jsval \<Rightarrow> string \<Rightarrow> 'n js_error + 'n jsval" where
  "get_prop eng JUndefined k = Inl (TypeError (read_error_message eng JUndefined k))"
| "get_prop eng JNull k = Inl (TypeError (read_error_message eng JNull k))"
| "get_prop eng (JObj kvs) k = Inr (case map_of kvs k of None \<Rightarrow> JUndefined | Some v \<Rightarrow> v)"
| "get_prop eng v k = Inr JUndefined"

section \<open>JSON.stringify with an indent of two\<close>

text \<open>
  \<^verbatim>\<open>JSON.stringify(v, null, 2)\<close>, after ECMAScript's SerializeJSONProperty,
  SerializeJSONObject, SerializeJSONArray and QuoteJSONString. The result is
  \<^verbatim>\<open>undefined\<close> (\<open>None\<close>) for \<^verbatim>\<open>undefined\<close>; a property whose value is
  \<^verbatim>\<open>undefined\<close> is left out of an object, and an \<^verbatim>\<open>undefined\<close> element of an array is
  written \<^verbatim>\<open>null\<close>, as is a number that is not finite. A finite number is written by
  Number::toString. A parsed value has no callable \<^verbatim>\<open>toJSON\<close>, so none is called.
  \<open>SerializeJSONArray\<close> and \<open>SerializeJSONObject\<close> return the serialised members one by
  one; \<open>wrap_lines\<close> joins them between the brackets, each on a line of its own at the
  deeper indent.
\<close>

definition hex_digit :: "nat \<Rightarrow> char" where
  "hex_digit n = (if n < 10 then char_of (48 + n) else char_of (87 + n))"

definition quote_char :: "char \<Rightarrow> string" where
  "quote_char c =
     (let n = (of_char c :: nat) in
      if n = 0x22 then [CHR 0x5C, CHR 0x22]
      else if n = 0x5C then [CHR 0x5C, CHR 0x5C]
      else if n = 8 then [CHR 0x5C, CHR ''b'']
      else if n = 9 then [CHR 0x5C, CHR ''t'']
      else if n = 10 then [CHR 0x5C, CHR ''n'']
      else if n = 12 then [CHR 0x5C, CHR ''f'']
      else if n = 13 then [CHR 0x5C, CHR ''r'']
      else if n < 32 then [CHR 0x5C, CHR ''u'', CHR ''0'', CHR ''0'', hex_digit (n div 16), hex_digit (n mod 16)]
      else [c])"

definition QuoteJSONString :: "string \<Rightarrow> string" where
  "QuoteJSONString s = CHR 0x22 # concat (map quote_char s) @ [CHR 0x22]"

fun join_with :: "string \<Rightarrow> string list \<Rightarrow> string" where
  "join_with sep [] = []"
| "join_with sep [x] = x"
| "join_with sep (x # y # ys) = x @ sep @ join_with sep (y # ys)"

definition gap :: string where
  "gap = ''  ''"

definition wrap_lines :: "char \<Rightarrow> char \<Rightarrow> string \<Rightarrow> string list \<Rightarrow> string" where
  "wrap_lines opn cls stepback partial =
     (if partial = [] then [opn, cls]
      else [opn, CHR 0x0A] @ (stepback @ gap)
           @ join_with ([CHR '','', CHR 0x0A] @ (stepback @ gap)) partial
           @ [CHR 0x0A] @ stepback @ [cls])"

fun SerializeJSONProperty :: "'n engine \<Rightarrow> string \<Rightarrow> 'n jsval \<Rightarrow> string option"
  and SerializeJSONArray :: "'n engine \<Rightarrow> string \<Rightarrow> 'n jsval list \<Rightarrow> string list"
  and SerializeJSONObject :: "'n engine \<Rightarrow> string \<Rightarrow> (string \<times> 'n jsval) list \<Rightarrow> string list"
where
  "SerializeJSONProperty eng ind JUndefined = None"
| "SerializeJSONProperty eng ind JNull = Some ''null''"
| "SerializeJSONProperty eng ind (JBool b) = Some (if b then ''true'' else ''false'')"
| "SerializeJSONProperty eng ind (JNum n) =
     Some (if num_is_finite eng n then num_to_string eng n else ''null'')"
| "SerializeJSONProperty eng ind (JStr s) = Some (QuoteJSONString s)"
| "SerializeJSONProperty eng ind (JArr xs) =
     Some (wrap_lines CHR ''['' CHR '']'' ind (SerializeJSONArray eng (ind @ gap) xs))"
| "SerializeJSONProperty eng ind (JObj kvs) =
     Some (wrap_lines CHR ''{'' CHR ''}'' ind (SerializeJSONObject eng (ind @ gap) kvs))"
| "SerializeJSONArray eng ind [] = []"
| "SerializeJSONArray eng ind (x # xs) =
     (case SerializeJSONProperty eng ind x of None \<Rightarrow> ''null'' | Some t \<Rightarrow> t)
     # SerializeJSONArray eng ind xs"
| "SerializeJSONObject eng ind [] = []"
| "SerializeJSONObject eng ind ((k, v) # kvs) =
     (case SerializeJSONProperty eng ind v of
        None \<Rightarrow> SerializeJSONObject eng ind kvs
      | Some t \<Rightarrow> (QuoteJSONString k @ '': '' @ t) # SerializeJSONObject eng ind kvs)"

definition JSON_stringify :: "'n engine \<Rightarrow> 'n jsval \<Rightarrow> string option" where
  "JSON_stringify eng v = SerializeJSONProperty eng [] v"

section \<open>Configuration and the authentication header\<close>

text \<open>
  The three settings are read from the environment; each is a string or
  \<^verbatim>\<open>undefined\<close>. A template literal writes an unset one as \<^verbatim>\<open>undefined\<close>.
\<close>

record config =
  CONFLUENCE_URL :: "string option"
  CONFLUENCE_API_MAIL :: "string option"
  CONFLUENCE_API_KEY :: "string option"

definition env_string :: "string option \<Rightarrow> string" where
  "env_string e = (case e of None \<Rightarrow> ''undefined'' | Some s \<Rightarrow> s)"

definition b64chars :: string where
  "b64chars = ''ABCDEFGHIJKLMNOPQRSTUVWXYZabcdefghijklmnopqrstuvwxyz0123456789+/''"

text \<open>\<^verbatim>\<open>Buffer.from(s).toString('base64')\<close> on the bytes of \<open>s\<close>.\<close>

fun base64 :: "nat list \<Rightarrow> string" where
  "base64 [] = []"
| "base64 [a] = [b64chars ! (a div 4), b64chars ! ((a mod 4) * 16), CHR ''='', CHR ''='']"
| "base64 [a, b] =
     [b64chars ! (a div 4), b64chars ! ((a mod 4) * 16 + b div 16),
      b64chars ! ((b mod 16) * 4), CHR ''='']"
| "base64 (a # b # c # r) =
     [b64chars ! (a div 4), b64chars ! ((a mod 4) * 16 + b div 16),
      b64chars ! ((b mod 16) * 4 + c div 64), b64chars ! (c mod 64)] @ base64 r"

definition getAuthHeaders :: "config \<Rightarrow> (string \<times> string) list" where
  "getAuthHeaders cfg =
     (let authHeader = ''Basic '' @ base64 (map of_char
            (env_string (CONFLUENCE_API_MAIL cfg) @ '':'' @ env_string (CONFLUENCE_API_KEY cfg)))
      in [(''Authorization'', authHeader), (''Content-Type'', ''application/json'')])"

section \<open>The remote, and axios\<close>

text \<open>
  A request is what the program hands to \<^verbatim>\<open>axios.get\<close> or \<^verbatim>\<open>axios.put\<close>: the URL, the
  headers, the \<^verbatim>\<open>params\<close> object (empty when none is given) and, for a PUT, the
  payload. The remote is a function of its own state \<open>'w\<close> and the request; it answers
  with a status and a parsed body, or not at all (\<open>NoReply\<close> with the message of the
  error axios then reports). The state of a run is the remote's state and the log of
  the requests handed to axios so far, in order.
\<close>

datatype http_method = GET | PUT

record 'n http_request =
  req_method :: http_method
  req_url :: string
  req_headers :: "(string \<times> string) list"
  req_params :: "(string \<times> 'n jsval) list"
  req_data :: "'n jsval option"

datatype 'n remote_reply = Reply nat "'n jsval" | NoReply string

type_synonym ('n, 'w) remote = "'w \<Rightarrow> 'n http_request \<Rightarrow> 'n remote_reply \<times> 'w"

record ('n, 'w) net =
  world :: 'w
  sent :: "'n http_request list"

text \<open>
  axios resolves with the response when the status is at least 200 and below 300 (its
  default \<^verbatim>\<open>validateStatus\<close>) and rejects otherwise. The status in the message is
  below 1000 and printed in decimal.
\<close>

fun digits :: "nat \<Rightarrow> string" where
  "digits n = (if n < 10 then [char_of (48 + n)] else digits (n div 10) @ [char_of (48 + n mod 10)])"

declare digits.simps [simp del]

fun axios_result :: "'n remote_reply \<Rightarrow> 'n js_error + 'n jsval" where
  "axios_result (Reply status d) =
     (if 200 \<le> status \<and> status < 300 then Inr d
      else Inl (AxiosError (Some d) (''Request failed with status code '' @ digits status)))"
| "axios_result (NoReply m) = Inl (AxiosError None m)"

definition axios ::
  "('n, 'w) remote \<Rightarrow> 'n http_request \<Rightarrow> ('n, 'w) net
     \<Rightarrow> ('n js_error + 'n jsval) \<times> ('n, 'w) net" where
  "axios remote rq s =
     (case remote (world s) rq of
        (reply, w') \<Rightarrow> (axios_result reply, \<lparr>world = w', sent = sent s @ [rq]\<rparr>))"

text \<open>
  The three \<^verbatim>\<open>catch\<close> blocks are the same:
  \<^verbatim>\<open>{ error: error.response ? error.response.data : error.message }\<close>.
\<close>

fun caught :: "'n js_error \<Rightarrow> 'n jsval" where
  "caught (AxiosError (Some d) m) = JObj [(''error'', d)]"
| "caught (AxiosError None m) = JObj [(''error'', JStr m)]"
| "caught (TypeError m) = JObj [(''error'', JStr m)]"
| "caught (Error m) = JObj [(''error'', JStr m)]"

section \<open>The remote client\<close>

text \<open>
  Each client function is the source's \<^verbatim>\<open>try\<close> block followed by its \<^verbatim>\<open>catch\<close>:
  a value is returned in both cases, never an exception.
\<close>

definition search_request :: "config \<Rightarrow> string \<Rightarrow> 'n \<Rightarrow> 'n http_request" where
  "search_request cfg cql limit =
     \<lparr>req_method = GET,
      req_url = env_string (CONFLUENCE_URL cfg) @ ''/wiki/rest/api/content/search'',
      req_headers = getAuthHeaders cfg,
      req_params = [(''cql'', JStr cql), (''limit'', JNum limit)],
      req_data = None\<rparr>"

definition executeCQL ::
  "config \<Rightarrow> ('n, 'w) remote \<Rightarrow> string \<Rightarrow> 'n \<Rightarrow> ('n, 'w) net \<Rightarrow> 'n jsval \<times> ('n, 'w) net" where
  "executeCQL cfg remote cql limit s =
     (case axios remote (search_request cfg cql limit) s of
        (Inr d, s') \<Rightarrow> (d, s')
      | (Inl e, s') \<Rightarrow> (caught e, s'))"

definition page_request :: "config \<Rightarrow> string \<Rightarrow> 'n http_request" where
  "page_request cfg pageId =
     \<lparr>req_method = GET,
      req_url = env_string (CONFLUENCE_URL cfg) @ ''/wiki/rest/api/content/'' @ pageId
                @ ''?expand=body.storage,version'',
      req_headers = getAuthHeaders cfg,
      req_params = [],
      req_data = None\<rparr>"

definition getPageContent ::
  "config \<Rightarrow> ('n, 'w) remote \<Rightarrow> string \<Rightarrow> ('n, 'w) net \<Rightarrow> 'n jsval \<times> ('n, 'w) net" where
  "getPageContent cfg remote pageId s =
     (case axios remote (page_request cfg pageId) s of
        (Inr d, s') \<Rightarrow> (d, s')
      | (Inl e, s') \<Rightarrow> (caught e, s'))"

text \<open>
  The object literal \<^verbatim>\<open>updatePayload\<close>. Its properties are evaluated in order; reading
  \<^verbatim>\<open>currentPage.version.number\<close> throws when \<^verbatim>\<open>currentPage.version\<close> is
  \<^verbatim>\<open>undefined\<close> or \<^verbatim>\<open>null\<close>, and adding \<^verbatim>\<open>1\<close> throws when the number is an object
  that cannot be made primitive. \<^verbatim>\<open>title || currentPage.title\<close> takes the argument
  when it is a non-empty string.
\<close>

definition updatePayload ::
  "'n engine \<Rightarrow> string \<Rightarrow> string \<Rightarrow> string option \<Rightarrow> 'n jsval \<Rightarrow> 'n js_error + 'n jsval" where
  "updatePayload eng pageId content title currentPage =
     (case get_prop eng currentPage ''type'' of Inl e \<Rightarrow> Inl e | Inr ty \<Rightarrow>
      case get_prop eng currentPage ''title'' of Inl e \<Rightarrow> Inl e | Inr cur_title \<Rightarrow>
      case get_prop eng currentPage ''space'' of Inl e \<Rightarrow> Inl e | Inr space \<Rightarrow>
      case get_prop eng currentPage ''version'' of Inl e \<Rightarrow> Inl e | Inr version \<Rightarrow>
      case get_prop eng version ''number'' of Inl e \<Rightarrow> Inl e | Inr number \<Rightarrow>
      case js_add eng number (JNum (num_of_int eng 1)) of Inl e \<Rightarrow> Inl e | Inr next \<Rightarrow>
        Inr (JObj
          [(''id'', JStr pageId),
           (''type'', ty),
           (''title'', (case title of
                          None \<Rightarrow> cur_title
                        | Some t \<Rightarrow> if t \<noteq> [] then JStr t else cur_title)),
           (''space'', space),
           (''body'', JObj [(''storage'',
               JObj [(''value'', JStr content), (''representation'', JStr ''storage'')])]),
           (''version'', JObj [(''number'', next)])]))"

definition put_request :: "config \<Rightarrow> string \<Rightarrow> 'n jsval \<Rightarrow> 'n http_request" where
  "put_request cfg pageId payload =
     \<lparr>req_method = PUT,
      req_url = env_string (CONFLUENCE_URL cfg) @ ''/wiki/rest/api/content/'' @ pageId,
      req_headers = AList.update ''Content-Type'' ''application/json'' (getAuthHeaders cfg),
      req_params = [],
      req_data = Some payload\<rparr>"

text \<open>
  The template literal \<^verbatim>\<open>`Failed to get current page: ${currentPage.error}`\<close> applies
  ToString to the error value, which can throw; the \<^verbatim>\<open>catch\<close> then answers with the
  TypeError's message.
\<close>

definition updatePageContent ::
  "'n engine \<Rightarrow> config \<Rightarrow> ('n, 'w) remote \<Rightarrow> string \<Rightarrow> string \<Rightarrow> string option
     \<Rightarrow> ('n, 'w) net \<Rightarrow> 'n jsval \<times> ('n, 'w) net" where
  "updatePageContent eng cfg remote pageId content title s =
     (case getPageContent cfg remote pageId s of (currentPage, s1) \<Rightarrow>
      case get_prop eng currentPage ''error'' of
        Inl e \<Rightarrow> (caught e, s1)
      | Inr err \<Rightarrow>
          if truthy eng err
          then (case js_String eng err of
                  Inl e \<Rightarrow> (caught e, s1)
                | Inr t \<Rightarrow> (JObj [(''error'', JStr (''Failed to get current page: '' @ t))], s1))
          else (case updatePayload eng pageId content title currentPage of
                  Inl e \<Rightarrow> (caught e, s1)
                | Inr payload \<Rightarrow>
                    (case axios remote (put_request cfg pageId payload) s1 of
                       (Inr d, s2) \<Rightarrow> (d, s2)
                     | (Inl e, s2) \<Rightarrow> (caught e, s2))))"

section \<open>The tool registry\<close>

text \<open>The default of a property is the integer literal the schema gives, if any.\<close>

record property_schema =
  prop_name :: string
  prop_type :: string
  prop_description :: string
  prop_default :: "int option"

record tool =
  tool_name :: string
  tool_description :: string
  tool_properties :: "property_schema list"
  tool_required :: "string list"

definition list_tools :: "tool list" where
  "list_tools =
     [\<lparr>tool_name = ''execute_cql_search'',
       tool_description = ''Execute a CQL query on Confluence to search pages'',
       tool_properties =
         [\<lparr>prop_name = ''cql'', prop_type = ''string'',
           prop_description = ''CQL query string'', prop_default = None\<rparr>,
          \<lparr>prop_name = ''limit'', prop_type = ''integer'',
           prop_description = ''Number of results to return'',
           prop_default = Some 10\<rparr>],
       tool_required = [''cql'']\<rparr>,
      \<lparr>tool_name = ''get_page_content'',
       tool_description = ''Get the content of a Confluence page'',
       tool_properties =
         [\<lparr>prop_name = ''pageId'', prop_type = ''string'',
           prop_description = ''Confluence Page ID'', prop_default = None\<rparr>],
       tool_required = [''pageId'']\<rparr>,
      \<lparr>tool_name = ''update_page_content'',
       tool_description = ''Update the content of a Confluence page'',
       tool_properties =
         [\<lparr>prop_name = ''pageId'', prop_type = ''string'',
           prop_description = ''Confluence Page ID'', prop_default = None\<rparr>,
          \<lparr>prop_name = ''content'', prop_type = ''string'',
           prop_description = ''HTML content to update the page with'', prop_default = None\<rparr>,
          \<lparr>prop_name = ''title'', prop_type = ''string'',
           prop_description = ''Page title (optional, if you want to change it)'',
           prop_default = None\<rparr>],
       tool_required = [''pageId'', ''content'']\<rparr>]"

section \<open>The dispatcher\<close>

text \<open>
  A request carries the tool's name and, optionally, the arguments object.
  \<^verbatim>\<open>request.params.arguments?.k\<close> is \<^verbatim>\<open>undefined\<close> when there is no arguments object or
  it has no property \<open>k\<close>. The handler returns the response envelope, or throws (\<open>Inl\<close>):
  the SDK turns a thrown error into a failure of that request. The coercions
  \<^verbatim>\<open>String(...)\<close> and \<^verbatim>\<open>Number(...)\<close> at the head of each case run in the source's
  order, before the checks, and each can throw.
\<close>

record 'n tool_request =
  call_name :: string
  call_arguments :: "(string \<times> 'n jsval) list option"

record content_item =
  item_type :: string
  item_text :: "string option"

record tool_response =
  response_content :: "content_item list"

definition arg :: "'n tool_request \<Rightarrow> string \<Rightarrow> 'n jsval" where
  "arg request k =
     (case call_arguments request of
        None \<Rightarrow> JUndefined
      | Some kvs \<Rightarrow> (case map_of kvs k of None \<Rightarrow> JUndefined | Some v \<Rightarrow> v))"

definition text_response :: "'n engine \<Rightarrow> 'n jsval \<Rightarrow> tool_response" where
  "text_response eng response =
     \<lparr>response_content = [\<lparr>item_type = ''text'', item_text = JSON_stringify eng response\<rparr>]\<rparr>"

text \<open>
  \<^verbatim>\<open>arguments?.title ? String(arguments?.title) : undefined\<close>, the \<^verbatim>\<open>title\<close> of the
  \<^verbatim>\<open>update_page_content\<close> case.
\<close>

definition title_argument :: "'n engine \<Rightarrow> 'n tool_request \<Rightarrow> 'n js_error + string option" where
  "title_argument eng request =
     (if truthy eng (arg request ''title'')
      then (case js_String eng (arg request ''title'') of
              Inl e \<Rightarrow> Inl e | Inr t \<Rightarrow> Inr (Some t))
      else Inr None)"

definition call_tool ::
  "'n engine \<Rightarrow> config \<Rightarrow> ('n, 'w) remote \<Rightarrow> 'n tool_request \<Rightarrow> ('n, 'w) net
     \<Rightarrow> ('n js_error + tool_response) \<times> ('n, 'w) net" where
  "call_tool eng cfg remote request s =
     (if call_name request = ''execute_cql_search'' then
        (case js_String eng (arg request ''cql'') of Inl e \<Rightarrow> (Inl e, s) | Inr cql \<Rightarrow>
         case js_Number eng (nullish (arg request ''limit'') (JNum (num_of_int eng 10))) of
           Inl e \<Rightarrow> (Inl e, s)
         | Inr limit \<Rightarrow>
             if cql = [] then (Inl (Error ''CQL query is required''), s)
             else (case executeCQL cfg remote cql limit s of
                     (response, s') \<Rightarrow> (Inr (text_response eng response), s')))
      else if call_name request = ''get_page_content'' then
        (case js_String eng (arg request ''pageId'') of Inl e \<Rightarrow> (Inl e, s) | Inr pageId \<Rightarrow>
           if pageId = [] then (Inl (Error ''Page ID is required''), s)
           else (case getPageContent cfg remote pageId s of
                   (response, s') \<Rightarrow> (Inr (text_response eng response), s')))
      else if call_name request = ''update_page_content'' then
        (case js_String eng (arg request ''pageId'') of Inl e \<Rightarrow> (Inl e, s) | Inr pageId \<Rightarrow>
         case js_String eng (arg request ''content'') of Inl e \<Rightarrow> (Inl e, s) | Inr content \<Rightarrow>
         case title_argument eng request of
           Inl e \<Rightarrow> (Inl e, s)
         | Inr title \<Rightarrow>
             if pageId = [] then (Inl (Error ''Page ID is required''), s)
             else if content = [] then (Inl (Error ''Content is required''), s)
             else (case updatePageContent eng cfg remote pageId content title s of
                     (response, s') \<Rightarrow> (Inr (text_response eng response), s')))
      else (Inl (Error ''Unknown tool''), s))"

section \<open>Example runs\<close>

text \<open>
  A concrete engine, configuration and remotes, on which the theorems below are
  instantiated. The example engine's numbers are the integers and \<^verbatim>\<open>NaN\<close> (\<open>None\<close>).
  It agrees with JavaScript where the examples use it: on sums of integers of magnitude
  below \<open>2 ^ 53\<close>, on printing integers of magnitude below \<open>10 ^ 21\<close>, and on reading
  unsigned decimal numerals; it is no model of the doubles beyond that. Its TypeError
  messages are Node's. The example remote holds one page: a GET without query
  parameters returns it, a GET with query parameters returns an empty result list, and
  a PUT stores the payload as the page.
\<close>

definition example_to_string :: "int option \<Rightarrow> string" where
  "example_to_string n =
     (case n of
        None \<Rightarrow> ''NaN''
      | Some i \<Rightarrow> if i < 0 then CHR ''-'' # digits (nat (- i)) else digits (nat i))"

definition example_of_string :: "string \<Rightarrow> int option" where
  "example_of_string s =
     (if s \<noteq> [] \<and> list_all (\<lambda>c. 48 \<le> (of_char c :: nat) \<and> (of_char c :: nat) \<le> 57) s
      then Some (foldl (\<lambda>a c. 10 * a + (of_char c - 48)) 0 s) else None)"

definition example_engine :: "int option engine" where
  "example_engine =
     \<lparr>num_of_int = Some,
      num_nan = None,
      num_add = (\<lambda>a b. case (a, b) of (Some x, Some y) \<Rightarrow> Some (x + y) | _ \<Rightarrow> None),
      num_is_falsy = (\<lambda>n. n = None \<or> n = Some 0),
      num_is_finite = (\<lambda>n. n \<noteq> None),
      num_to_string = example_to_string,
      string_to_number = example_of_string,
      read_error_message = (\<lambda>v k. ''Cannot read properties of ''
         @ (if v = JNull then ''null'' else ''undefined'')
         @ '' (reading '' @ [CHR 0x27] @ k @ [CHR 0x27] @ '')''),
      convert_error_message = ''Cannot convert object to primitive value''\<rparr>"

definition example_config :: config where
  "example_config =
     \<lparr>CONFLUENCE_URL = Some ''https://example.atlassian.net'',
      CONFLUENCE_API_MAIL = Some ''user@example.com'',
      CONFLUENCE_API_KEY = Some ''abcdef''\<rparr>"

definition example_page :: "int option jsval" where
  "example_page =
     JObj [(''type'', JStr ''page''), (''title'', JStr ''T''),
           (''version'', JObj [(''number'', JNum (Some 3))])]"

definition example_remote :: "(int option, int option jsval) remote" where
  "example_remote w rq =
     (if req_method rq = PUT then
        (case req_data rq of
           Some p \<Rightarrow> (Reply 200 p, p)
         | None \<Rightarrow> (Reply 400 (JObj [(''message'', JStr ''no body'')]), w))
      else if req_params rq \<noteq> [] then
        (Reply 200 (JObj [(''results'', JArr []), (''size'', JNum (Some 0))]), w)
      else (Reply 200 w, w))"

definition not_found_remote :: "(int option, int option jsval) remote" where
  "not_found_remote w rq = (Reply 404 (JObj [(''message'', JStr ''No content found'')]), w)"

definition plain_not_found_remote :: "(int option, int option jsval) remote" where
  "plain_not_found_remote w rq = (Reply 404 (JStr ''Not Found''), w)"

definition offline_remote :: "(int option, int option jsval) remote" where
  "offline_remote w rq = (NoReply ''getaddrinfo ENOTFOUND example.atlassian.net'', w)"

definition example_state :: "(int option, int option jsval) net" where
  "example_state = \<lparr>world = example_page, sent = []\<rparr>"

definition flagged_page :: "int option jsval" where
  "flagged_page =
     JObj [(''type'', JStr ''page''), (''title'', JStr ''T''),
           (''version'', JObj [(''number'', JNum (Some 3))]),
           (''error'', JStr ''stale'')]"

definition flagged_state :: "(int option, int option jsval) net" where
  "flagged_state = \<lparr>world = flagged_page, sent = []\<rparr>"

section \<open>Well-formed bodies and the text of a value\<close>






section \<open>Basic facts about the client\<close>

lemma axios_run:
  "remote (world s) rq = (reply, w') \<Longrightarrow>
   axios remote rq s = (axios_result reply, \<lparr>world = w', sent = sent s @ [rq]\<rparr>)"
  by (simp add: axios_def)

lemma executeCQL_run:
  "remote (world s) (search_request cfg cql limit) = (reply, w') \<Longrightarrow>
   executeCQL cfg remote cql limit s =
     ((case axios_result reply of Inr d \<Rightarrow> d | Inl e \<Rightarrow> caught e),
      \<lparr>world = w', sent = sent s @ [search_request cfg cql limit]\<rparr>)"
  by (simp add: executeCQL_def axios_run split: sum.splits)

lemma getPageContent_run:
  "remote (world s) (page_request cfg pageId) = (reply, w') \<Longrightarrow>
   getPageContent cfg remote pageId s =
     ((case axios_result reply of Inr d \<Rightarrow> d | Inl e \<Rightarrow> caught e),
      \<lparr>world = w', sent = sent s @ [page_request cfg pageId]\<rparr>)"
  by (simp add: getPageContent_def axios_run split: sum.splits)

lemma executeCQL_sent:
  "sent (snd (executeCQL cfg remote cql limit s)) = sent s @ [search_request cfg cql limit]"
  by (cases "remote (world s) (search_request cfg cql limit)")
    (simp add: executeCQL_run [where remote = remote and s = s])

lemma getPageContent_sent:
  "sent (snd (getPageContent cfg remote pageId s)) = sent s @ [page_request cfg pageId]"
  by (cases "remote (world s) (page_request cfg pageId)")
    (simp add: getPageContent_run [where remote = remote and s = s])

lemma tool_names:
  "map tool_name list_tools = [''execute_cql_search'', ''get_page_content'', ''update_page_content'']"
  by (simp add: list_tools_def)

lemma snd_case_prod_pair: "snd (case p of (a, b) \<Rightarrow> (f a, b)) = snd p"
  by (cases p) simp

lemma fst_case_prod_pair: "fst (case p of (a, b) \<Rightarrow> (f a, b)) = f (fst p)"
  by (cases p) simp

lemma axios_result_failure:
  assumes "reply = Reply status b \<and> \<not> (200 \<le> status \<and> status < 300) \<or> reply = NoReply m \<and> b = JStr m"
  shows "\<exists>e. axios_result reply = Inl e \<and> caught e = JObj [(''error'', b)]"
  using assms by auto


section \<open>Facts about the dispatcher\<close>

lemma call_search:
  assumes "call_name request = ''execute_cql_search''"
    and "js_String eng (arg request ''cql'') = Inr cql" and "cql \<noteq> []"
    and "js_Number eng (nullish (arg request ''limit'') (JNum (num_of_int eng 10))) = Inr limit"
  shows "call_tool eng cfg remote request s =
     (case executeCQL cfg remote cql limit s of
        (response, s') \<Rightarrow> (Inr (text_response eng response), s'))"
  using assms by (simp add: call_tool_def)

lemma call_page:
  assumes "call_name request = ''get_page_content''"
    and "js_String eng (arg request ''pageId'') = Inr pageId" and "pageId \<noteq> []"
  shows "call_tool eng cfg remote request s =
     (case getPageContent cfg remote pageId s of
        (response, s') \<Rightarrow> (Inr (text_response eng response), s'))"
  using assms by (simp add: call_tool_def)

lemma call_update:
  assumes "call_name request = ''update_page_content''"
    and "js_String eng (arg request ''pageId'') = Inr pageId" and "pageId \<noteq> []"
    and "js_String eng (arg request ''content'') = Inr html" and "html \<noteq> []"
    and "title_argument eng request = Inr title"
  shows "call_tool eng cfg remote request s =
     (case updatePageContent eng cfg remote pageId html title s of
        (response, s') \<Rightarrow> (Inr (text_response eng response), s'))"
  using assms by (simp add: call_tool_def)

lemma js_String_error:
  "js_String eng v = Inl e \<Longrightarrow> e = TypeError (convert_error_message eng)"
  "array_join eng xs = Inl e \<Longrightarrow> e = TypeError (convert_error_message eng)"
  by (induction eng v and eng xs arbitrary: e and e rule: js_String_array_join.induct)
    (auto split: if_splits sum.splits)

lemma js_Number_error:
  "js_Number eng v = Inl e \<Longrightarrow> e = TypeError (convert_error_message eng)"
  by (cases v) (auto simp: js_Number_def split: sum.splits if_splits dest: js_String_error)

lemma title_argument_error:
  "title_argument eng request = Inl e \<Longrightarrow> e = TypeError (convert_error_message eng)"
  by (auto simp: title_argument_def split: sum.splits if_splits dest: js_String_error)

lemma updatePayload_shape:
  assumes "updatePayload eng pageId html title currentPage = Inr payload"
  shows "\<exists>ty cur_title space version number next.
           get_prop eng currentPage ''type'' = Inr ty
         \<and> get_prop eng currentPage ''title'' = Inr cur_title
         \<and> get_prop eng currentPage ''space'' = Inr space
         \<and> get_prop eng currentPage ''version'' = Inr version
         \<and> get_prop eng version ''number'' = Inr number
         \<and> js_add eng number (JNum (num_of_int eng 1)) = Inr next
         \<and> payload = JObj
             [(''id'', JStr pageId),
              (''type'', ty),
              (''title'', (case title of None \<Rightarrow> cur_title
                           | Some t \<Rightarrow> if t \<noteq> [] then JStr t else cur_title)),
              (''space'', space),
              (''body'', JObj [(''storage'',
                  JObj [(''value'', JStr html), (''representation'', JStr ''storage'')])]),
              (''version'', JObj [(''number'', next)])]"
  using assms unfolding updatePayload_def
  by (auto split: sum.splits)

lemma updatePayload_caught:
  "updatePayload eng pageId html title (caught e) \<noteq> Inr payload"
  by (cases e rule: caught.cases) (simp_all add: updatePayload_def)

lemma updatePageContent_requests:
  assumes "getPageContent cfg remote pageId s = (currentPage, s1)"
  shows "sent (snd (updatePageContent eng cfg remote pageId html title s))
           = sent s @ [page_request cfg pageId]
       \<or> (\<exists>err payload.
             get_prop eng currentPage ''error'' = Inr err \<and> \<not> truthy eng err
           \<and> updatePayload eng pageId html title currentPage = Inr payload
           \<and> sent (snd (updatePageContent eng cfg remote pageId html title s))
               = sent s @ [page_request cfg pageId, put_request cfg pageId payload])"
proof -
  have s1: "sent s1 = sent s @ [page_request cfg pageId]"
    using getPageContent_sent [of cfg remote pageId s] assms by simp
  show ?thesis
  proof (cases "get_prop eng currentPage ''error''")
    case (Inl e)
    then show ?thesis using assms s1 by (simp add: updatePageContent_def)
  next
    case (Inr err)
    show ?thesis
    proof (cases "truthy eng err")
      case True
      then show ?thesis using assms s1 Inr
        by (simp add: updatePageContent_def split: sum.splits)
    next
      case False
      show ?thesis
      proof (cases "updatePayload eng pageId html title currentPage")
        case (Inl e)
        then show ?thesis using assms s1 Inr False by (simp add: updatePageContent_def)
      next
        case (Inr payload)
        obtain reply w2 where r: "remote (world s1) (put_request cfg pageId payload) = (reply, w2)"
          by (cases "remote (world s1) (put_request cfg pageId payload)")
        have "sent (snd (updatePageContent eng cfg remote pageId html title s))
               = sent s @ [page_request cfg pageId, put_request cfg pageId payload]"
          using assms s1 \<open>get_prop eng currentPage ''error'' = Inr err\<close> False Inr
          by (simp add: updatePageContent_def axios_run [where remote = remote and s = s1, OF r]
              split: sum.splits)
        then show ?thesis
          using \<open>get_prop eng currentPage ''error'' = Inr err\<close> False Inr by blast
      qed
    qed
  qed
qed

lemma updatePageContent_first_request:
  "\<exists>rest. sent (snd (updatePageContent eng cfg remote pageId html title s))
      = sent s @ page_request cfg pageId # rest"
proof -
  obtain currentPage s1 where g: "getPageContent cfg remote pageId s = (currentPage, s1)"
    by (cases "getPageContent cfg remote pageId s")
  from updatePageContent_requests [OF g, of eng html title] show ?thesis by auto
qed



text \<open>
  A call of a registered tool either throws and leaves the state as it was, or runs
  its client function on the coerced arguments.
\<close>

lemma call_search_cases:
  assumes "call_name request = ''execute_cql_search''"
  shows "call_tool eng cfg remote request s
            = (Inl (TypeError (convert_error_message eng)), s)
          \<and> (isl (js_String eng (arg request ''cql''))
             \<or> isl (js_Number eng (nullish (arg request ''limit'') (JNum (num_of_int eng 10)))))
       \<or> js_String eng (arg request ''cql'') = Inr []
          \<and> call_tool eng cfg remote request s = (Inl (Error ''CQL query is required''), s)
       \<or> (\<exists>cql limit. js_String eng (arg request ''cql'') = Inr cql \<and> cql \<noteq> []
            \<and> js_Number eng (nullish (arg request ''limit'') (JNum (num_of_int eng 10))) = Inr limit
            \<and> call_tool eng cfg remote request s =
                (case executeCQL cfg remote cql limit s of
                   (response, s') \<Rightarrow> (Inr (text_response eng response), s')))"
  using assms
  by (auto simp: call_tool_def split: sum.splits dest: js_String_error js_Number_error)

lemma call_page_cases:
  assumes "call_name request = ''get_page_content''"
  shows "call_tool eng cfg remote request s
            = (Inl (TypeError (convert_error_message eng)), s)
          \<and> isl (js_String eng (arg request ''pageId''))
       \<or> js_String eng (arg request ''pageId'') = Inr []
          \<and> call_tool eng cfg remote request s = (Inl (Error ''Page ID is required''), s)
       \<or> (\<exists>pageId. js_String eng (arg request ''pageId'') = Inr pageId \<and> pageId \<noteq> []
            \<and> call_tool eng cfg remote request s =
                (case getPageContent cfg remote pageId s of
                   (response, s') \<Rightarrow> (Inr (text_response eng response), s')))"
  using assms
  by (auto simp: call_tool_def split: sum.splits dest: js_String_error)

lemma call_update_cases:
  assumes "call_name request = ''update_page_content''"
  shows "call_tool eng cfg remote request s
            = (Inl (TypeError (convert_error_message eng)), s)
          \<and> (isl (js_String eng (arg request ''pageId''))
             \<or> isl (js_String eng (arg request ''content''))
             \<or> isl (js_String eng (arg request ''title'')))
       \<or> js_String eng (arg request ''pageId'') = Inr []
          \<and> call_tool eng cfg remote request s = (Inl (Error ''Page ID is required''), s)
       \<or> js_String eng (arg request ''content'') = Inr []
          \<and> call_tool eng cfg remote request s = (Inl (Error ''Content is required''), s)
       \<or> (\<exists>pageId html title.
              js_String eng (arg request ''pageId'') = Inr pageId \<and> pageId \<noteq> []
            \<and> js_String eng (arg request ''content'') = Inr html \<and> html \<noteq> []
            \<and> title_argument eng request = Inr title
            \<and> call_tool eng cfg remote request s =
                (case updatePageContent eng cfg remote pageId html title s of
                   (response, s') \<Rightarrow> (Inr (text_response eng response), s')))"
  using assms
  by (auto simp: call_tool_def title_argument_def split: sum.splits if_splits
      dest: js_String_error)


section \<open>The serialisation can be read back\<close>






















section \<open>Dispatch on the tool name\<close>

text \<open>
  C6. A request whose name is not the name of a registered tool fails with the thrown
  error \<^verbatim>\<open>Unknown tool\<close>; nothing is sent to the remote and no response envelope is
  produced.
\<close>

theorem unknown_tool_fails:
  assumes "call_name request \<notin> set (map tool_name list_tools)"
  shows "call_tool eng cfg remote request s = (Inl (Error ''Unknown tool''), s)"
  using assms by (simp add: call_tool_def tool_names)

theorem unknown_tool_fails_witness:
  "call_tool example_engine example_config example_remote
     \<lparr>call_name = ''frobnicate'', call_arguments = None\<rparr> example_state
   = (Inl (Error ''Unknown tool''), example_state)"
  using unknown_tool_fails [of "\<lparr>call_name = ''frobnicate'', call_arguments = None\<rparr>"
      example_engine example_config example_remote example_state]
  by (simp add: tool_names)

text \<open>
  C3, as the code has it. The registry lists three tools, \<^verbatim>\<open>execute_cql_search\<close>,
  \<^verbatim>\<open>get_page_content\<close> and \<^verbatim>\<open>update_page_content\<close>, and the dispatcher answers
  \<^verbatim>\<open>Unknown tool\<close> exactly for the names outside the registry. None of the nine
  ticket, project, status and user tools is registered.
\<close>

theorem registry_is_three_tools:
  "map tool_name list_tools =
     [''execute_cql_search'', ''get_page_content'', ''update_page_content'']
   \<and> (fst (call_tool eng cfg remote request s) = Inl (Error ''Unknown tool''))
       = (call_name request \<notin> set (map tool_name list_tools))
   \<and> set [''execute_jql'', ''get_only_ticket_name_and_description'', ''create_ticket'',
          ''list_projects'', ''delete_ticket'', ''edit_ticket'', ''get_all_statuses'',
          ''assign_ticket'', ''query_assignable'']
       \<inter> set (map tool_name list_tools) = {}"
proof -
  have "fst (call_tool eng cfg remote request s) \<noteq> Inl (Error ''Unknown tool'')"
    if "call_name request \<in> set (map tool_name list_tools)"
  proof -
    from that consider "call_name request = ''execute_cql_search''"
      | "call_name request = ''get_page_content''"
      | "call_name request = ''update_page_content''"
      by (auto simp: tool_names)
    then show ?thesis
    proof cases
      case 1
      from call_search_cases [OF 1, of eng cfg remote s] show ?thesis
        by (auto simp: fst_case_prod_pair)
    next
      case 2
      from call_page_cases [OF 2, of eng cfg remote s] show ?thesis
        by (auto simp: fst_case_prod_pair)
    next
      case 3
      from call_update_cases [OF 3, of eng cfg remote s] show ?thesis
        by (auto simp: fst_case_prod_pair)
    qed
  qed
  moreover have "fst (call_tool eng cfg remote request s) = Inl (Error ''Unknown tool'')"
    if "call_name request \<notin> set (map tool_name list_tools)"
    using that by (simp add: call_tool_def tool_names)
  ultimately show ?thesis
    by (auto simp: tool_names)
qed

theorem registry_is_three_tools_witness:
  "map tool_name list_tools =
     [''execute_cql_search'', ''get_page_content'', ''update_page_content'']
   \<and> fst (call_tool example_engine example_config example_remote
        \<lparr>call_name = ''list_projects'', call_arguments = None\<rparr> example_state)
       = Inl (Error ''Unknown tool'')
   \<and> fst (call_tool example_engine example_config example_remote
        \<lparr>call_name = ''get_page_content'', call_arguments = Some [(''pageId'', JStr ''42'')]\<rparr>
        example_state)
       \<noteq> Inl (Error ''Unknown tool'')"
  using registry_is_three_tools [of example_engine example_config example_remote
      "\<lparr>call_name = ''list_projects'', call_arguments = None\<rparr>" example_state]
    registry_is_three_tools [of example_engine example_config example_remote
      "\<lparr>call_name = ''get_page_content'', call_arguments = Some [(''pageId'', JStr ''42'')]\<rparr>"
      example_state]
  by (simp add: tool_names)

text \<open>
  C3 as stated fails: \<^verbatim>\<open>execute_jql\<close> is not in the registry, and a request for it is
  answered with \<^verbatim>\<open>Unknown tool\<close>.
\<close>

theorem execute_jql_not_registered:
  "''execute_jql'' \<notin> set (map tool_name list_tools)
   \<and> call_tool example_engine example_config example_remote
        \<lparr>call_name = ''execute_jql'',
         call_arguments = Some [(''jql'', JStr ''project = DOC'')]\<rparr> example_state
       = (Inl (Error ''Unknown tool''), example_state)"
  by (simp add: call_tool_def list_tools_def)

section \<open>Validation of the required arguments\<close>

text \<open>
  C1, at the input where the code departs from it. A call of any of the three tools
  with an empty arguments object is not rejected: \<^verbatim>\<open>String(undefined)\<close> is the
  non-empty string \<^verbatim>\<open>undefined\<close>, so the check \<^verbatim>\<open>if (!cql)\<close> (and its like for
  \<^verbatim>\<open>pageId\<close> and \<^verbatim>\<open>content\<close>) passes, nothing is thrown, and a request goes to the
  remote with \<^verbatim>\<open>undefined\<close> as the value of the missing argument.
\<close>

theorem missing_argument_not_rejected:
  "\<not> isl (fst (call_tool eng cfg remote
        \<lparr>call_name = ''execute_cql_search'', call_arguments = Some []\<rparr> s))
   \<and> sent (snd (call_tool eng cfg remote
        \<lparr>call_name = ''execute_cql_search'', call_arguments = Some []\<rparr> s))
       = sent s @ [search_request cfg ''undefined'' (num_of_int eng 10)]
   \<and> \<not> isl (fst (call_tool eng cfg remote
        \<lparr>call_name = ''get_page_content'', call_arguments = Some []\<rparr> s))
   \<and> sent (snd (call_tool eng cfg remote
        \<lparr>call_name = ''get_page_content'', call_arguments = Some []\<rparr> s))
       = sent s @ [page_request cfg ''undefined'']
   \<and> \<not> isl (fst (call_tool eng cfg remote
        \<lparr>call_name = ''update_page_content'', call_arguments = Some []\<rparr> s))
   \<and> take (Suc (length (sent s))) (sent (snd (call_tool eng cfg remote
        \<lparr>call_name = ''update_page_content'', call_arguments = Some []\<rparr> s)))
       = sent s @ [page_request cfg ''undefined'']"
proof -
  have a: "\<not> isl (fst (call_tool eng cfg remote
        \<lparr>call_name = ''execute_cql_search'', call_arguments = Some []\<rparr> s))
     \<and> sent (snd (call_tool eng cfg remote
        \<lparr>call_name = ''execute_cql_search'', call_arguments = Some []\<rparr> s))
       = sent s @ [search_request cfg ''undefined'' (num_of_int eng 10)]"
    by (simp add: call_tool_def arg_def js_Number_def snd_case_prod_pair fst_case_prod_pair
        executeCQL_sent)
  have b: "\<not> isl (fst (call_tool eng cfg remote
        \<lparr>call_name = ''get_page_content'', call_arguments = Some []\<rparr> s))
     \<and> sent (snd (call_tool eng cfg remote
        \<lparr>call_name = ''get_page_content'', call_arguments = Some []\<rparr> s))
       = sent s @ [page_request cfg ''undefined'']"
    by (simp add: call_tool_def arg_def snd_case_prod_pair fst_case_prod_pair
        getPageContent_sent)
  obtain rest where r: "sent (snd (updatePageContent eng cfg remote ''undefined'' ''undefined'' None s))
      = sent s @ page_request cfg ''undefined'' # rest"
    using updatePageContent_first_request by blast
  have c: "\<not> isl (fst (call_tool eng cfg remote
        \<lparr>call_name = ''update_page_content'', call_arguments = Some []\<rparr> s))
     \<and> take (Suc (length (sent s))) (sent (snd (call_tool eng cfg remote
        \<lparr>call_name = ''update_page_content'', call_arguments = Some []\<rparr> s)))
       = sent s @ [page_request cfg ''undefined'']"
    by (simp add: call_tool_def arg_def title_argument_def snd_case_prod_pair
        fst_case_prod_pair r)
  from a b c show ?thesis by blast
qed




section \<open>The CQL search and the page fetch\<close>




text \<open>
  C8. Two calls of \<^verbatim>\<open>get_page_content\<close> with the same \<^verbatim>\<open>pageId\<close>, made in any two
  states in which the remote gives the same reply to the page request, have the same
  outcome: the same envelope with the same text, or the same thrown error.
\<close>

theorem get_page_content_deterministic:
  assumes "call_name r1 = ''get_page_content''" and "call_name r2 = ''get_page_content''"
    and "arg r1 ''pageId'' = arg r2 ''pageId''"
    and "\<And>pageId. js_String eng (arg r1 ''pageId'') = Inr pageId \<Longrightarrow>
           fst (remote (world s1) (page_request cfg pageId))
           = fst (remote (world s2) (page_request cfg pageId))"
  shows "fst (call_tool eng cfg remote r1 s1) = fst (call_tool eng cfg remote r2 s2)"
proof (cases "js_String eng (arg r1 ''pageId'')")
  case (Inl e)
  then show ?thesis using assms(1-3) by (simp add: call_tool_def)
next
  case (Inr pageId)
  obtain reply w1 where a: "remote (world s1) (page_request cfg pageId) = (reply, w1)"
    by (cases "remote (world s1) (page_request cfg pageId)")
  obtain w2 where b: "remote (world s2) (page_request cfg pageId) = (reply, w2)"
    using assms(4) [OF Inr] a by (cases "remote (world s2) (page_request cfg pageId)") simp
  have eq: "js_String eng (arg r2 ''pageId'') = Inr pageId"
    using assms(3) Inr by simp
  have "fst (call_tool eng cfg remote r1 s1) =
          (if pageId = [] then Inl (Error ''Page ID is required'')
           else Inr (text_response eng (case axios_result reply of Inr d \<Rightarrow> d | Inl e \<Rightarrow> caught e)))"
    using assms(1) Inr
    by (simp add: call_tool_def getPageContent_run [where remote = remote and s = s1, OF a])
  moreover have "fst (call_tool eng cfg remote r2 s2) =
          (if pageId = [] then Inl (Error ''Page ID is required'')
           else Inr (text_response eng (case axios_result reply of Inr d \<Rightarrow> d | Inl e \<Rightarrow> caught e)))"
    using assms(2) eq
    by (simp add: call_tool_def getPageContent_run [where remote = remote and s = s2, OF b])
  ultimately show ?thesis by simp
qed

theorem get_page_content_deterministic_witness:
  "fst (call_tool example_engine example_config example_remote
      \<lparr>call_name = ''get_page_content'', call_arguments = Some [(''pageId'', JStr ''42'')]\<rparr>
      example_state)
   = fst (call_tool example_engine example_config example_remote
      \<lparr>call_name = ''get_page_content'', call_arguments = Some [(''pageId'', JStr ''42'')]\<rparr>
      (snd (call_tool example_engine example_config example_remote
        \<lparr>call_name = ''get_page_content'', call_arguments = Some [(''pageId'', JStr ''42'')]\<rparr>
        example_state)))
   \<and> fst (call_tool example_engine example_config example_remote
      \<lparr>call_name = ''get_page_content'', call_arguments = Some [(''pageId'', JStr ''42'')]\<rparr>
      example_state)
     = Inr \<lparr>response_content = [\<lparr>item_type = ''text'',
         item_text = JSON_stringify example_engine example_page\<rparr>]\<rparr>"
proof -
  let ?r = "\<lparr>call_name = ''get_page_content'', call_arguments = Some [(''pageId'', JStr ''42'')]\<rparr>
              :: int option tool_request"
  let ?s2 = "snd (call_tool example_engine example_config example_remote ?r example_state)"
  have w: "world ?s2 = example_page"
    by (simp add: call_tool_def arg_def getPageContent_def axios_def example_remote_def
        example_state_def page_request_def)
  have same: "fst (example_remote (world example_state) (page_request example_config pageId))
      = fst (example_remote (world ?s2) (page_request example_config pageId))" for pageId
    unfolding w by (simp add: example_state_def)
  have "fst (call_tool example_engine example_config example_remote ?r example_state)
      = fst (call_tool example_engine example_config example_remote ?r ?s2)"
    by (rule get_page_content_deterministic [where remote = example_remote]) (simp_all add: same)
  moreover have "fst (call_tool example_engine example_config example_remote ?r example_state)
     = Inr \<lparr>response_content = [\<lparr>item_type = ''text'',
         item_text = JSON_stringify example_engine example_page\<rparr>]\<rparr>"
    by (simp add: call_tool_def arg_def getPageContent_def axios_def example_remote_def
        example_state_def page_request_def text_response_def)
  ultimately show ?thesis by simp
qed

section \<open>The page update\<close>

text \<open>
  C2 as stated fails: the fetch succeeds with status 200 and returns a page with
  version number 3, but the page has a truthy \<^verbatim>\<open>error\<close> property, which the code takes
  for the sign of a failed fetch, and no PUT is sent.
\<close>

theorem flagged_page_gets_no_put:
  "axios_result (fst (example_remote (world flagged_state) (page_request example_config ''42'')))
     = Inr flagged_page
   \<and> get_prop example_engine flagged_page ''version'' = Inr (JObj [(''number'', JNum (Some 3))])
   \<and> sent (snd (call_tool example_engine example_config example_remote
        \<lparr>call_name = ''update_page_content'',
         call_arguments = Some [(''pageId'', JStr ''42''), (''content'', JStr ''<p>new</p>'')]\<rparr>
        flagged_state))
     = [page_request example_config ''42'']"
  by (simp add: call_tool_def arg_def title_argument_def updatePageContent_def
      getPageContent_def axios_def example_remote_def flagged_state_def flagged_page_def
      page_request_def)

text \<open>
  C2, as the code has it. Let \<^verbatim>\<open>update_page_content\<close> be called with arguments that
  pass the coercions and the validation, let the fetch of the current page succeed with
  status 2xx and a page whose \<^verbatim>\<open>error\<close> property is not truthy and whose
  \<^verbatim>\<open>version.number\<close> is the number \<open>n\<close>. Then the GET is followed by exactly one PUT,
  to the page's URL, whose body has \<^verbatim>\<open>version.number\<close> equal to the engine's sum of
  \<open>n\<close> and 1, the \<^verbatim>\<open>type\<close> and \<^verbatim>\<open>space\<close> of the fetched page, the new content, and,
  when the \<^verbatim>\<open>title\<close> argument is absent, the fetched page's title.
\<close>

theorem update_payload_increments_version:
  assumes name: "call_name request = ''update_page_content''"
    and pid: "js_String eng (arg request ''pageId'') = Inr pageId" "pageId \<noteq> []"
    and cont: "js_String eng (arg request ''content'') = Inr html" "html \<noteq> []"
    and targ: "title_argument eng request = Inr title"
    and fetch: "remote (world s) (page_request cfg pageId) = (Reply status page, w1)"
      "200 \<le> status" "status < 300"
    and noerr: "get_prop eng page ''error'' = Inr err" "\<not> truthy eng err"
    and ty: "get_prop eng page ''type'' = Inr ty"
    and ttl: "get_prop eng page ''title'' = Inr cur_title"
    and sp: "get_prop eng page ''space'' = Inr space"
    and ver: "get_prop eng page ''version'' = Inr version"
      "get_prop eng version ''number'' = Inr (JNum n)"
  shows "\<exists>new_title.
           sent (snd (call_tool eng cfg remote request s))
             = sent s @
               [page_request cfg pageId,
                \<lparr>req_method = PUT,
                 req_url = env_string (CONFLUENCE_URL cfg) @ ''/wiki/rest/api/content/'' @ pageId,
                 req_headers = AList.update ''Content-Type'' ''application/json'' (getAuthHeaders cfg),
                 req_params = [],
                 req_data = Some (JObj
                   [(''id'', JStr pageId),
                    (''type'', ty),
                    (''title'', new_title),
                    (''space'', space),
                    (''body'', JObj [(''storage'',
                       JObj [(''value'', JStr html), (''representation'', JStr ''storage'')])]),
                    (''version'',
                       JObj [(''number'', JNum (num_add eng n (num_of_int eng 1)))])])\<rparr>]
         \<and> new_title = (case title of None \<Rightarrow> cur_title
                         | Some t \<Rightarrow> if t \<noteq> [] then JStr t else cur_title)
         \<and> (arg request ''title'' = JUndefined \<longrightarrow> new_title = cur_title)"
proof -
  define new_title where
    "new_title = (case title of None \<Rightarrow> cur_title | Some t \<Rightarrow> if t \<noteq> [] then JStr t else cur_title)"
  define payload where
    "payload = JObj
       [(''id'', JStr pageId), (''type'', ty), (''title'', new_title), (''space'', space),
        (''body'', JObj [(''storage'',
           JObj [(''value'', JStr html), (''representation'', JStr ''storage'')])]),
        (''version'', JObj [(''number'', JNum (num_add eng n (num_of_int eng 1)))])]"
  let ?s1 = "\<lparr>world = w1, sent = sent s @ [page_request cfg pageId]\<rparr>"
  have get: "getPageContent cfg remote pageId s = (page, ?s1)"
    using fetch by (simp add: getPageContent_run [where remote = remote and s = s])
  have pay: "updatePayload eng pageId html title page = Inr payload"
    using ty ttl sp ver
    by (simp add: updatePayload_def payload_def new_title_def js_add_def)
  obtain reply w2 where r: "remote (world ?s1) (put_request cfg pageId payload) = (reply, w2)"
    by (cases "remote (world ?s1) (put_request cfg pageId payload)")
  have "sent (snd (updatePageContent eng cfg remote pageId html title s))
          = sent s @ [page_request cfg pageId, put_request cfg pageId payload]"
    using get noerr pay
    by (simp add: updatePageContent_def axios_run [where remote = remote and s = ?s1, OF r]
        split: sum.splits)
  then have "sent (snd (call_tool eng cfg remote request s))
          = sent s @ [page_request cfg pageId, put_request cfg pageId payload]"
    using call_update [OF name pid cont targ, of cfg remote s]
    by (simp add: snd_case_prod_pair)
  moreover have "arg request ''title'' = JUndefined \<longrightarrow> new_title = cur_title"
    using targ by (auto simp: new_title_def title_argument_def)
  ultimately show ?thesis
    unfolding payload_def put_request_def new_title_def by blast
qed

theorem update_payload_increments_version_witness:
  "sent (snd (call_tool example_engine example_config example_remote
      \<lparr>call_name = ''update_page_content'',
       call_arguments = Some [(''pageId'', JStr ''42''), (''content'', JStr ''<p>new</p>'')]\<rparr>
      example_state))
   = [page_request example_config ''42'',
      \<lparr>req_method = PUT,
       req_url = ''https://example.atlassian.net/wiki/rest/api/content/42'',
       req_headers = AList.update ''Content-Type'' ''application/json''
                       (getAuthHeaders example_config),
       req_params = [],
       req_data = Some (JObj
        [(''id'', JStr ''42''),
         (''type'', JStr ''page''),
         (''title'', JStr ''T''),
         (''space'', JUndefined),
         (''body'', JObj [(''storage'',
            JObj [(''value'', JStr ''<p>new</p>''), (''representation'', JStr ''storage'')])]),
         (''version'', JObj [(''number'', JNum (Some 4))])])\<rparr>]"
  using update_payload_increments_version
    [where request = "\<lparr>call_name = ''update_page_content'',
         call_arguments = Some [(''pageId'', JStr ''42''), (''content'', JStr ''<p>new</p>'')]\<rparr>"
       and pageId = "''42''" and html = "''<p>new</p>''" and title = None
       and remote = example_remote
       and s = example_state and cfg = example_config and status = 200
       and page = example_page and ?w1.0 = example_page and eng = example_engine
       and err = JUndefined and ty = "JStr ''page''" and cur_title = "JStr ''T''"
       and space = JUndefined and version = "JObj [(''number'', JNum (Some 3))]" and n = "Some 3"]
  by (simp add: arg_def title_argument_def example_remote_def example_state_def
      example_page_def page_request_def example_engine_def example_config_def env_string_def)

text \<open>
  C10. In a call of \<^verbatim>\<open>update_page_content\<close>, every PUT that is sent follows a
  successful fetch and carries a payload whose \<^verbatim>\<open>title\<close> is the fetched page's title
  when the \<^verbatim>\<open>title\<close> argument is the empty string; and the payload's title is the
  empty string only if the fetched page's title already is.
\<close>

theorem empty_title_keeps_current_title:
  assumes name: "call_name request = ''update_page_content''"
    and fetch: "\<And>pageId. js_String eng (arg request ''pageId'') = Inr pageId \<Longrightarrow>
                  remote (world s) (page_request cfg pageId) = (reply, w1)"
  shows "\<forall>rq \<in> set (drop (length (sent s)) (sent (snd (call_tool eng cfg remote request s)))).
           req_method rq = PUT \<longrightarrow>
           (\<exists>page cur_title payload new_title.
               axios_result reply = Inr page
             \<and> get_prop eng page ''title'' = Inr cur_title
             \<and> req_data rq = Some payload
             \<and> get_prop eng payload ''title'' = Inr new_title
             \<and> (arg request ''title'' = JStr [] \<longrightarrow> new_title = cur_title)
             \<and> (new_title = JStr [] \<longrightarrow> cur_title = JStr []))"
proof -
  from call_update_cases [OF name, of eng cfg remote s]
  consider e where "call_tool eng cfg remote request s = (Inl e, s)"
    | pageId html title where
      "js_String eng (arg request ''pageId'') = Inr pageId"
      "title_argument eng request = Inr title"
      "call_tool eng cfg remote request s =
         (case updatePageContent eng cfg remote pageId html title s of
            (response, s') \<Rightarrow> (Inr (text_response eng response), s'))"
    by blast
  then show ?thesis
  proof cases
    case 1
    then show ?thesis by simp
  next
    case 2
    define currentPage where
      "currentPage = (case axios_result reply of Inr d \<Rightarrow> d | Inl e \<Rightarrow> caught e)"
    let ?s1 = "\<lparr>world = w1, sent = sent s @ [page_request cfg pageId]\<rparr>"
    have get: "getPageContent cfg remote pageId s = (currentPage, ?s1)"
      using fetch [OF 2(1)]
      by (simp add: getPageContent_run [where remote = remote and s = s] currentPage_def)
    have call: "sent (snd (call_tool eng cfg remote request s))
                = sent (snd (updatePageContent eng cfg remote pageId html title s))"
      by (simp add: 2(3) snd_case_prod_pair)
    from updatePageContent_requests [OF get, of eng html title]
    show ?thesis
    proof
      assume "sent (snd (updatePageContent eng cfg remote pageId html title s))
                = sent s @ [page_request cfg pageId]"
      then show ?thesis
        using call by (simp add: page_request_def)
    next
      assume "\<exists>err payload.
               get_prop eng currentPage ''error'' = Inr err \<and> \<not> truthy eng err
             \<and> updatePayload eng pageId html title currentPage = Inr payload
             \<and> sent (snd (updatePageContent eng cfg remote pageId html title s))
                 = sent s @ [page_request cfg pageId, put_request cfg pageId payload]"
      then obtain err payload where
        pay: "updatePayload eng pageId html title currentPage = Inr payload"
        and snt: "sent (snd (updatePageContent eng cfg remote pageId html title s))
                 = sent s @ [page_request cfg pageId, put_request cfg pageId payload]"
        by blast
      obtain page where page: "axios_result reply = Inr page"
        using pay updatePayload_caught [of eng pageId html title _ payload]
        by (cases "axios_result reply") (auto simp: currentPage_def)
      then have cur: "currentPage = page" by (simp add: currentPage_def)
      from updatePayload_shape [OF pay] obtain ty cur_title space version number "next" where
        ct: "get_prop eng currentPage ''title'' = Inr cur_title"
        and shape: "payload = JObj
               [(''id'', JStr pageId),
                (''type'', ty),
                (''title'', (case title of None \<Rightarrow> cur_title
                             | Some t \<Rightarrow> if t \<noteq> [] then JStr t else cur_title)),
                (''space'', space),
                (''body'', JObj [(''storage'',
                    JObj [(''value'', JStr html), (''representation'', JStr ''storage'')])]),
                (''version'', JObj [(''number'', next)])]"
        by blast
      define new_title where
        "new_title = (case title of None \<Rightarrow> cur_title | Some t \<Rightarrow> if t \<noteq> [] then JStr t else cur_title)"
      have nt: "get_prop eng payload ''title'' = Inr new_title"
        by (simp add: shape new_title_def)
      have a: "arg request ''title'' = JStr [] \<longrightarrow> new_title = cur_title"
        using 2(2) by (auto simp: new_title_def title_argument_def)
      have b: "new_title = JStr [] \<longrightarrow> cur_title = JStr []"
        by (auto simp: new_title_def split: option.splits if_splits)
      have "\<exists>page cur_title payload' new_title.
                 axios_result reply = Inr page
               \<and> get_prop eng page ''title'' = Inr cur_title
               \<and> req_data (put_request cfg pageId payload) = Some payload'
               \<and> get_prop eng payload' ''title'' = Inr new_title
               \<and> (arg request ''title'' = JStr [] \<longrightarrow> new_title = cur_title)
               \<and> (new_title = JStr [] \<longrightarrow> cur_title = JStr [])"
        using page ct cur nt a b by (auto simp: put_request_def)
      then show ?thesis
        using call snt by (simp add: page_request_def)
    qed
  qed
qed

theorem empty_title_keeps_current_title_witness:
  "sent (snd (call_tool example_engine example_config example_remote
      \<lparr>call_name = ''update_page_content'',
       call_arguments = Some [(''pageId'', JStr ''42''), (''content'', JStr ''<p>new</p>''),
                              (''title'', JStr [])]\<rparr>
      example_state))
   = [page_request example_config ''42'',
      put_request example_config ''42'' (JObj
        [(''id'', JStr ''42''),
         (''type'', JStr ''page''),
         (''title'', JStr ''T''),
         (''space'', JUndefined),
         (''body'', JObj [(''storage'',
            JObj [(''value'', JStr ''<p>new</p>''), (''representation'', JStr ''storage'')])]),
         (''version'', JObj [(''number'', JNum (Some 4))])])]
   \<and> req_method (put_request example_config ''42'' (JNull :: int option jsval)) = PUT"
proof -
  let ?r = "\<lparr>call_name = ''update_page_content'',
       call_arguments = Some [(''pageId'', JStr ''42''), (''content'', JStr ''<p>new</p>''),
                              (''title'', JStr [])]\<rparr> :: int option tool_request"
  have run: "sent (snd (call_tool example_engine example_config example_remote ?r example_state))
     = [page_request example_config ''42'',
        put_request example_config ''42'' (JObj
          [(''id'', JStr ''42''),
           (''type'', JStr ''page''),
           (''title'', JStr ''T''),
           (''space'', JUndefined),
           (''body'', JObj [(''storage'',
              JObj [(''value'', JStr ''<p>new</p>''), (''representation'', JStr ''storage'')])]),
           (''version'', JObj [(''number'', JNum (Some 4))])])]"
    by (simp add: call_tool_def arg_def title_argument_def updatePageContent_def
        getPageContent_def axios_def example_remote_def example_state_def example_page_def
        page_request_def put_request_def updatePayload_def js_add_def example_engine_def)
  have fetch: "example_remote (world example_state) (page_request example_config pageId)
        = (Reply 200 example_page, example_page)" for pageId
    by (simp add: example_remote_def example_state_def page_request_def)
  have "\<forall>rq \<in> set (drop (length (sent example_state))
            (sent (snd (call_tool example_engine example_config example_remote ?r example_state)))).
          req_method rq = PUT \<longrightarrow>
          (\<exists>page cur_title payload new_title.
              axios_result (Reply 200 example_page) = Inr page
            \<and> get_prop example_engine page ''title'' = Inr cur_title
            \<and> req_data rq = Some payload
            \<and> get_prop example_engine payload ''title'' = Inr new_title
            \<and> (arg ?r ''title'' = JStr [] \<longrightarrow> new_title = cur_title)
            \<and> (new_title = JStr [] \<longrightarrow> cur_title = JStr []))"
    by (rule empty_title_keeps_current_title
          [where remote = example_remote and s = example_state and ?w1.0 = example_page])
      (simp_all add: fetch)
  then show ?thesis
    using run by (simp add: put_request_def)
qed

section \<open>Failures of the remote\<close>

text \<open>
  C4 as stated fails for the fetch that precedes an update: on a 404 whose body is the
  string \<^verbatim>\<open>Not Found\<close>, the text content is not \<^verbatim>\<open>{error: "Not Found"}\<close> but carries
  a longer message.
\<close>

theorem update_fetch_failure_is_reworded:
  "fst (call_tool example_engine example_config plain_not_found_remote
      \<lparr>call_name = ''update_page_content'',
       call_arguments = Some [(''pageId'', JStr ''42''), (''content'', JStr ''<p>new</p>'')]\<rparr>
      example_state)
   = Inr (text_response example_engine
       (JObj [(''error'', JStr ''Failed to get current page: Not Found'')]))
   \<and> text_response example_engine
         (JObj [(''error'', JStr ''Failed to get current page: Not Found'')])
     \<noteq> text_response example_engine (JObj [(''error'', JStr ''Not Found'')])"
proof -
  have "JSON_stringify example_engine
          (JObj [(''error'', JStr ''Failed to get current page: Not Found'')])
     \<noteq> JSON_stringify example_engine (JObj [(''error'', JStr ''Not Found'')])"
    by (simp add: JSON_stringify_def wrap_lines_def gap_def QuoteJSONString_def quote_char_def)
  then show ?thesis
    by (simp add: call_tool_def arg_def title_argument_def updatePageContent_def
        getPageContent_def axios_def plain_not_found_remote_def example_state_def
        text_response_def)
qed

text \<open>
  C4, as the code has it. Let a remote call fail, with \<open>b\<close> the body of the non-2xx
  response or else the message of the network error. The tool call still returns an
  envelope whose text is the serialisation of an object \<^verbatim>\<open>{error: v}\<close>. For the CQL
  search, for the fetch of \<^verbatim>\<open>get_page_content\<close> and for the PUT of
  \<^verbatim>\<open>update_page_content\<close>, \<open>v\<close> is \<open>b\<close>. For the fetch that precedes the update, when
  \<open>b\<close> is a non-empty string, \<open>v\<close> is \<^verbatim>\<open>Failed to get current page: \<close> followed by
  \<open>b\<close>; nothing is said here of \<open>v\<close> for other bodies.
\<close>

theorem remote_failure_returned_as_data:
  assumes fail: "reply = Reply status b \<and> \<not> (200 \<le> status \<and> status < 300)
             \<or> reply = NoReply m \<and> b = JStr m"
  shows "(call_name request = ''execute_cql_search''
            \<and> js_String eng (arg request ''cql'') = Inr cql \<and> cql \<noteq> []
            \<and> js_Number eng (nullish (arg request ''limit'') (JNum (num_of_int eng 10))) = Inr limit
            \<and> remote (world s) (search_request cfg cql limit) = (reply, w')
          \<longrightarrow> call_tool eng cfg remote request s
                = (Inr (text_response eng (JObj [(''error'', b)])),
                   \<lparr>world = w', sent = sent s @ [search_request cfg cql limit]\<rparr>))
       \<and> (call_name request = ''get_page_content''
            \<and> js_String eng (arg request ''pageId'') = Inr pageId \<and> pageId \<noteq> []
            \<and> remote (world s) (page_request cfg pageId) = (reply, w')
          \<longrightarrow> call_tool eng cfg remote request s
                = (Inr (text_response eng (JObj [(''error'', b)])),
                   \<lparr>world = w', sent = sent s @ [page_request cfg pageId]\<rparr>))
       \<and> (call_name request = ''update_page_content''
            \<and> js_String eng (arg request ''pageId'') = Inr pageId \<and> pageId \<noteq> []
            \<and> js_String eng (arg request ''content'') = Inr html \<and> html \<noteq> []
            \<and> title_argument eng request = Inr title
            \<and> remote (world s) (page_request cfg pageId) = (reply, w')
          \<longrightarrow> (\<exists>v. call_tool eng cfg remote request s
                     = (Inr (text_response eng (JObj [(''error'', v)])),
                        \<lparr>world = w', sent = sent s @ [page_request cfg pageId]\<rparr>)
                   \<and> (\<forall>t. b = JStr t \<and> t \<noteq> [] \<longrightarrow>
                        v = JStr (''Failed to get current page: '' @ t))))
       \<and> (call_name request = ''update_page_content''
            \<and> js_String eng (arg request ''pageId'') = Inr pageId \<and> pageId \<noteq> []
            \<and> js_String eng (arg request ''content'') = Inr html \<and> html \<noteq> []
            \<and> title_argument eng request = Inr title
            \<and> getPageContent cfg remote pageId s = (page, s1)
            \<and> get_prop eng page ''error'' = Inr err \<and> \<not> truthy eng err
            \<and> updatePayload eng pageId html title page = Inr payload
            \<and> remote (world s1) (put_request cfg pageId payload) = (reply, w')
          \<longrightarrow> call_tool eng cfg remote request s
                = (Inr (text_response eng (JObj [(''error'', b)])),
                   \<lparr>world = w', sent = sent s1 @ [put_request cfg pageId payload]\<rparr>))"
proof -
  obtain e where e: "axios_result reply = Inl e" "caught e = JObj [(''error'', b)]"
    using axios_result_failure [OF fail] by blast
  have A: "call_tool eng cfg remote request s
                = (Inr (text_response eng (JObj [(''error'', b)])),
                   \<lparr>world = w', sent = sent s @ [search_request cfg cql limit]\<rparr>)"
    if "call_name request = ''execute_cql_search''" "js_String eng (arg request ''cql'') = Inr cql"
      "cql \<noteq> []" "js_Number eng (nullish (arg request ''limit'') (JNum (num_of_int eng 10))) = Inr limit"
      "remote (world s) (search_request cfg cql limit) = (reply, w')"
    using e
    by (simp add: call_search [OF that(1-4)]
        executeCQL_run [where remote = remote and s = s, OF that(5)])
  have B: "call_tool eng cfg remote request s
                = (Inr (text_response eng (JObj [(''error'', b)])),
                   \<lparr>world = w', sent = sent s @ [page_request cfg pageId]\<rparr>)"
    if "call_name request = ''get_page_content''" "js_String eng (arg request ''pageId'') = Inr pageId"
      "pageId \<noteq> []" "remote (world s) (page_request cfg pageId) = (reply, w')"
    using e
    by (simp add: call_page [OF that(1-3)]
        getPageContent_run [where remote = remote and s = s, OF that(4)])
  have C: "\<exists>v. call_tool eng cfg remote request s
                     = (Inr (text_response eng (JObj [(''error'', v)])),
                        \<lparr>world = w', sent = sent s @ [page_request cfg pageId]\<rparr>)
                   \<and> (\<forall>t. b = JStr t \<and> t \<noteq> [] \<longrightarrow>
                        v = JStr (''Failed to get current page: '' @ t))"
    if "call_name request = ''update_page_content''" "js_String eng (arg request ''pageId'') = Inr pageId"
      "pageId \<noteq> []" "js_String eng (arg request ''content'') = Inr html" "html \<noteq> []"
      "title_argument eng request = Inr title"
      "remote (world s) (page_request cfg pageId) = (reply, w')"
  proof -
    have get: "getPageContent cfg remote pageId s
        = (JObj [(''error'', b)], \<lparr>world = w', sent = sent s @ [page_request cfg pageId]\<rparr>)"
      using e by (simp add: getPageContent_run [where remote = remote and s = s, OF that(7)])
    show ?thesis
    proof (cases "truthy eng b")
      case True
      show ?thesis
      proof (cases "js_String eng b")
        case (Inl x)
        then have "x = TypeError (convert_error_message eng)"
          by (rule js_String_error)
        then show ?thesis
          using True Inl get
          by (auto simp: call_update [OF that(1-6)] updatePageContent_def)
      next
        case (Inr x)
        then show ?thesis
          using True get
          by (auto simp: call_update [OF that(1-6)] updatePageContent_def)
      qed
    next
      case False
      then show ?thesis
        using get
        by (auto simp: call_update [OF that(1-6)] updatePageContent_def updatePayload_def)
    qed
  qed
  have D: "call_tool eng cfg remote request s
                = (Inr (text_response eng (JObj [(''error'', b)])),
                   \<lparr>world = w', sent = sent s1 @ [put_request cfg pageId payload]\<rparr>)"
    if "call_name request = ''update_page_content''" "js_String eng (arg request ''pageId'') = Inr pageId"
      "pageId \<noteq> []" "js_String eng (arg request ''content'') = Inr html" "html \<noteq> []"
      "title_argument eng request = Inr title"
      "getPageContent cfg remote pageId s = (page, s1)"
      "get_prop eng page ''error'' = Inr err" "\<not> truthy eng err"
      "updatePayload eng pageId html title page = Inr payload"
      "remote (world s1) (put_request cfg pageId payload) = (reply, w')"
    using that(7-10) e
    by (simp add: call_update [OF that(1-6)] updatePageContent_def
        axios_run [where remote = remote and s = s1, OF that(11)])
  from A B C D show ?thesis by blast
qed

theorem remote_failure_returned_as_data_witness:
  "call_tool example_engine example_config not_found_remote
      \<lparr>call_name = ''get_page_content'', call_arguments = Some [(''pageId'', JStr ''42'')]\<rparr>
      example_state
   = (Inr (text_response example_engine
        (JObj [(''error'', JObj [(''message'', JStr ''No content found'')])])),
      \<lparr>world = example_page, sent = [page_request example_config ''42'']\<rparr>)
   \<and> call_tool example_engine example_config offline_remote
      \<lparr>call_name = ''execute_cql_search'', call_arguments = Some [(''cql'', JStr ''type=page'')]\<rparr>
      example_state
   = (Inr (text_response example_engine
        (JObj [(''error'', JStr ''getaddrinfo ENOTFOUND example.atlassian.net'')])),
      \<lparr>world = example_page, sent = [search_request example_config ''type=page'' (Some 10)]\<rparr>)"
  using remote_failure_returned_as_data
      [where reply = "Reply 404 (JObj [(''message'', JStr ''No content found'')])"
         and status = 404 and b = "JObj [(''message'', JStr ''No content found'')]"
         and request = "\<lparr>call_name = ''get_page_content'',
               call_arguments = Some [(''pageId'', JStr ''42'')]\<rparr>"
         and pageId = "''42''" and remote = not_found_remote and s = example_state
         and cfg = example_config and eng = example_engine and w' = example_page]
    remote_failure_returned_as_data
      [where reply = "NoReply ''getaddrinfo ENOTFOUND example.atlassian.net''"
         and m = "''getaddrinfo ENOTFOUND example.atlassian.net''"
         and b = "JStr ''getaddrinfo ENOTFOUND example.atlassian.net''"
         and request = "\<lparr>call_name = ''execute_cql_search'',
               call_arguments = Some [(''cql'', JStr ''type=page'')]\<rparr>"
         and cql = "''type=page''" and limit = "Some 10" and remote = offline_remote
         and s = example_state and cfg = example_config and eng = example_engine
         and w' = example_page]
  by (simp add: arg_def js_Number_def not_found_remote_def offline_remote_def example_state_def
      example_engine_def)

text \<open>
  C5 as stated fails: when the fetch fails with a network error, the value the update
  returns is not the fetch's error value but a longer string that contains it.
\<close>

theorem offline_fetch_error_is_prefixed:
  "fst (getPageContent example_config offline_remote ''42'' example_state)
     = JObj [(''error'', JStr ''getaddrinfo ENOTFOUND example.atlassian.net'')]
   \<and> fst (updatePageContent example_engine example_config offline_remote
          ''42'' ''<p>new</p>'' None example_state)
     = JObj [(''error'',
         JStr ''Failed to get current page: getaddrinfo ENOTFOUND example.atlassian.net'')]
   \<and> fst (updatePageContent example_engine example_config offline_remote
          ''42'' ''<p>new</p>'' None example_state)
     \<noteq> fst (getPageContent example_config offline_remote ''42'' example_state)"
  by (simp add: updatePageContent_def getPageContent_def axios_def offline_remote_def)

text \<open>
  C5, as the code has it. When the fetch that precedes the update fails, with \<open>b\<close> the
  body of the non-2xx response or else the message of the network error, the GET is
  the only request sent, so no PUT is issued, and the value returned is an object
  \<^verbatim>\<open>{error: v}\<close>; when \<open>b\<close> is a non-empty string, \<open>v\<close> is
  \<^verbatim>\<open>Failed to get current page: \<close> followed by \<open>b\<close>.
\<close>

theorem failed_fetch_aborts_update:
  assumes fetch: "remote (world s) (page_request cfg pageId) = (reply, w')"
    and fail: "reply = Reply status b \<and> \<not> (200 \<le> status \<and> status < 300)
             \<or> reply = NoReply m \<and> b = JStr m"
  shows "snd (updatePageContent eng cfg remote pageId html title s)
           = \<lparr>world = w', sent = sent s @ [page_request cfg pageId]\<rparr>
       \<and> (\<exists>v. fst (updatePageContent eng cfg remote pageId html title s)
                 = JObj [(''error'', v)]
             \<and> (\<forall>t. b = JStr t \<and> t \<noteq> [] \<longrightarrow>
                   v = JStr (''Failed to get current page: '' @ t)))"
proof -
  obtain e where e: "axios_result reply = Inl e" "caught e = JObj [(''error'', b)]"
    using axios_result_failure [OF fail] by blast
  have get: "getPageContent cfg remote pageId s
      = (JObj [(''error'', b)], \<lparr>world = w', sent = sent s @ [page_request cfg pageId]\<rparr>)"
    using e by (simp add: getPageContent_run [where remote = remote and s = s, OF fetch])
  show ?thesis
  proof (cases "truthy eng b")
    case True
    show ?thesis
    proof (cases "js_String eng b")
      case (Inl x)
      then have "x = TypeError (convert_error_message eng)"
        by (rule js_String_error)
      then show ?thesis
        using True Inl get by (auto simp: updatePageContent_def)
    next
      case (Inr x)
      then show ?thesis
        using True get by (auto simp: updatePageContent_def)
    qed
  next
    case False
    then show ?thesis
      using get by (auto simp: updatePageContent_def updatePayload_def)
  qed
qed

theorem failed_fetch_aborts_update_witness:
  "snd (updatePageContent example_engine example_config plain_not_found_remote
          ''42'' ''<p>new</p>'' None example_state)
     = \<lparr>world = example_page, sent = [page_request example_config ''42'']\<rparr>
   \<and> fst (updatePageContent example_engine example_config plain_not_found_remote
          ''42'' ''<p>new</p>'' None example_state)
     = JObj [(''error'', JStr ''Failed to get current page: Not Found'')]"
  using failed_fetch_aborts_update
      [where reply = "Reply 404 (JStr ''Not Found'')"
         and status = 404 and b = "JStr ''Not Found''"
         and pageId = "''42''" and remote = plain_not_found_remote and s = example_state
         and cfg = example_config and eng = example_engine and w' = example_page
         and html = "''<p>new</p>''" and title = None]
  by (auto simp: plain_not_found_remote_def example_state_def)

end
